theory Spec2Isabelle
  imports Main
begin

section \<open>Strings of the runtime\<close>

text \<open>
  A JavaScript string is modelled as a \<^typ>\<open>string\<close>: the list of its code units, each
  below 256 (the Latin-1 range). \<open>None\<close> of a \<^typ>\<open>string option\<close> stands for
  \<^verbatim>\<open>undefined\<close> or \<^verbatim>\<open>null\<close>.
\<close>

text \<open>
  \<^verbatim>\<open>String.prototype.trim\<close> removes white space and line terminators from both ends.
  In the modelled range these are TAB, LF, VT, FF, CR, SPACE and NBSP.
\<close>

definition isWhiteSpace :: "char \<Rightarrow> bool" where
  "isWhiteSpace c = ((of_char c :: nat) \<in> {9, 10, 11, 12, 13, 32, 160})"

definition trim :: "string \<Rightarrow> string" where
  "trim s = rev (dropWhile isWhiteSpace (rev (dropWhile isWhiteSpace s)))"

text \<open>
  \<^verbatim>\<open>String.prototype.toLowerCase\<close>: in the modelled range the letters with a lower-case
  partner are A to Z and U+00C0 to U+00DE without the multiplication sign U+00D7; the
  partner lies 32 above.
\<close>

definition toLowerCase_char :: "char \<Rightarrow> char" where
  "toLowerCase_char c =
     (let n = (of_char c :: nat)
      in if (65 \<le> n \<and> n \<le> 90) \<or> (192 \<le> n \<and> n \<le> 222 \<and> n \<noteq> 215)
         then char_of (n + 32) else c)"

definition toLowerCase :: "string \<Rightarrow> string" where
  "toLowerCase s = map toLowerCase_char s"

text \<open>\<^verbatim>\<open>s.startsWith(p)\<close>.\<close>

fun startsWith :: "string \<Rightarrow> string \<Rightarrow> bool" where
  "startsWith s [] = True"
| "startsWith [] (p # ps) = False"
| "startsWith (c # cs) (p # ps) = (c = p \<and> startsWith cs ps)"

text \<open>\<^verbatim>\<open>s.includes(p)\<close>: \<open>p\<close> occurs in \<open>s\<close> at some position.\<close>

fun includes_str :: "string \<Rightarrow> string \<Rightarrow> bool" where
  "includes_str [] p = startsWith [] p"
| "includes_str (c # cs) p = (startsWith (c # cs) p \<or> includes_str cs p)"

text \<open>
  \<^verbatim>\<open>s.split(sep)\<close> for a one-character separator: the pieces between the separators,
  never an empty array.
\<close>

fun split_str :: "char \<Rightarrow> string \<Rightarrow> string list" where
  "split_str sep [] = [[]]"
| "split_str sep (c # cs) =
     (if c = sep then [] # split_str sep cs
      else (let r = split_str sep cs in (c # hd r) # tl r))"

text \<open>Reading an array at an index: \<^verbatim>\<open>undefined\<close> beyond its end.\<close>

definition at_index :: "'a list \<Rightarrow> nat \<Rightarrow> 'a option" where
  "at_index xs i = (if i < length xs then Some (xs ! i) else None)"

section \<open>types.ts\<close>

text \<open>
  \<^verbatim>\<open>GenderResult = "Male" | "Female" | "Indeterminate" | "NoFaceDetected" | "Error" | null\<close>;
  \<open>Unset\<close> is the \<^verbatim>\<open>null\<close> of the union.
\<close>

datatype GenderResult = Male | Female | Indeterminate | NoFaceDetected | Error | Unset

text \<open>
  \<^verbatim>\<open>ImageData\<close>. The field \<open>base64\<close> is declared a string, but the upload handler fills
  it from \<^verbatim>\<open>split(',')[1]\<close>, which is \<^verbatim>\<open>undefined\<close> when the data URL has no comma;
  \<open>name\<close> is optional.
\<close>

record ImageData =
  base64 :: "string option"
  mimeType :: string
  name :: "string option"

section \<open>services/geminiService.ts\<close>

definition MODEL_NAME :: string where
  "MODEL_NAME = ''gemini-2.5-flash-preview-04-17''"

definition PROMPT :: string where
  "PROMPT = ''Analyze the provided image. What is the perceived gender of the most prominent human face visible? ''
     @ [CHR 0x0A] @ ''Respond with *only one* of the following keywords: ''
     @ [CHR 0x27] @ ''Male'' @ [CHR 0x27] @ '', '' @ [CHR 0x27] @ ''Female'' @ [CHR 0x27] @ '', ''
     @ [CHR 0x27] @ ''Indeterminate'' @ [CHR 0x27] @ ''. ''
     @ [CHR 0x0A] @ ''If no clear human face is visible, respond with ''
     @ [CHR 0x27] @ ''NoFaceDetected'' @ [CHR 0x27] @ ''.''"

text \<open>
  The request handed to \<^verbatim>\<open>ai.models.generateContent\<close>: the model, the inline image part
  and the text part.
\<close>

record GenerateContentRequest =
  model :: string
  inline_mimeType :: string
  inline_data :: "string option"
  text_part :: string

text \<open>
  The response: only its \<^verbatim>\<open>text\<close> accessor (the field \<open>response_text\<close>) is read,
  which yields \<^verbatim>\<open>undefined\<close> when the response carries no text.
\<close>

record GenerateContentResponse =
  response_text :: "string option"

text \<open>
  What a JavaScript computation can throw: the rejection of the model call (any value,
  here its message), or the \<^verbatim>\<open>TypeError\<close> of reading a property of
  \<^verbatim>\<open>undefined\<close> or \<^verbatim>\<open>null\<close>.
\<close>

datatype fault = ApiFault string | TypeError

text \<open>
  The external model call is a parameter: a function from the request to a rejection
  (\<open>Inl\<close>) or a response (\<open>Inr\<close>).
\<close>

type_synonym generateContent = "GenerateContentRequest \<Rightarrow> fault + GenerateContentResponse"

text \<open>
  \<^verbatim>\<open>!API_KEY\<close>: the environment variable is \<^verbatim>\<open>undefined\<close> or the empty string.
\<close>

definition falsy :: "string option \<Rightarrow> bool" where
  "falsy v = (case v of None \<Rightarrow> True | Some s \<Rightarrow> s = [])"

text \<open>Lines 37 to 47: the exact keywords, then the substring fallback in its order.\<close>

definition normalizeText :: "string \<Rightarrow> GenderResult" where
  "normalizeText textResult =
     (if textResult = ''Male'' then Male
      else if textResult = ''Female'' then Female
      else if textResult = ''Indeterminate'' then Indeterminate
      else if textResult = ''NoFaceDetected'' then NoFaceDetected
      else if includes_str (toLowerCase textResult) ''male'' then Male
      else if includes_str (toLowerCase textResult) ''female'' then Female
      else if includes_str (toLowerCase textResult) ''indeterminate'' then Indeterminate
      else if includes_str (toLowerCase textResult) ''no face''
              \<or> includes_str (toLowerCase textResult) ''nofacedetected'' then NoFaceDetected
      else Indeterminate)"

text \<open>\<^verbatim>\<open>response.text.trim()\<close>: a \<^verbatim>\<open>TypeError\<close> when the text is \<^verbatim>\<open>undefined\<close>.\<close>

definition response_text_trim :: "GenerateContentResponse \<Rightarrow> fault + string" where
  "response_text_trim response =
     (case response_text response of None \<Rightarrow> Inl TypeError | Some t \<Rightarrow> Inr (trim t))"

definition buildRequest :: "ImageData \<Rightarrow> GenerateContentRequest" where
  "buildRequest imageData =
     \<lparr>model = MODEL_NAME, inline_mimeType = mimeType imageData,
      inline_data = base64 imageData, text_part = PROMPT\<rparr>"

text \<open>
  The body of the \<^verbatim>\<open>try\<close> block (lines 21 to 47): \<open>Inl\<close> is a fault thrown inside
  it, \<open>Inr\<close> the value of its \<^verbatim>\<open>return\<close>.
\<close>

definition tryBlock :: "generateContent \<Rightarrow> ImageData \<Rightarrow> fault + GenderResult" where
  "tryBlock gen imageData =
     (case gen (buildRequest imageData) of
        Inl f \<Rightarrow> Inl f
      | Inr response \<Rightarrow>
          (case response_text_trim response of
             Inl f \<Rightarrow> Inl f
           | Inr textResult \<Rightarrow> Inr (normalizeText textResult)))"

text \<open>
  \<^verbatim>\<open>detectGenderFromImage\<close>. The first component is how the promise settles (\<open>Inl\<close>: it
  rejects with a fault, \<open>Inr\<close>: it resolves to a value); the second is the list of
  requests sent to the model. The client object is built from a non-empty key outside
  the \<^verbatim>\<open>try\<close> block and is taken to be built without a fault.
\<close>

definition detectGenderFromImage ::
  "string option \<Rightarrow> generateContent \<Rightarrow> ImageData
     \<Rightarrow> (fault + GenderResult) \<times> GenerateContentRequest list" where
  "detectGenderFromImage API_KEY gen imageData =
     (if falsy API_KEY then (Inr Error, [])
      else (case tryBlock gen imageData of
              Inl f \<Rightarrow> (Inr Error, [buildRequest imageData])
            | Inr r \<Rightarrow> (Inr r, [buildRequest imageData])))"

section \<open>App.tsx\<close>

text \<open>
  A \<^verbatim>\<open>MediaStream\<close> is the list of its tracks, each named by a number; a track is live
  until \<^verbatim>\<open>stop()\<close> is called on it. The \<^verbatim>\<open>video\<close> element holds the attached stream.
\<close>

type_synonym MediaStream = "nat list"

record HTMLVideoElement =
  srcObject :: "MediaStream option"

text \<open>
  The component's state: the six \<^verbatim>\<open>useState\<close> cells, \<^verbatim>\<open>videoRef.current\<close>
  (\<open>None\<close> while no \<^verbatim>\<open>video\<close> element is mounted) and the set of media tracks that
  are live. A state setter is a write to its cell.
\<close>

record app_state =
  selectedImage :: "ImageData option"
  previewUrl :: "string option"
  genderResult :: GenderResult
  isLoading :: bool
  error :: "string option"
  isCameraMode :: bool
  videoRef :: "HTMLVideoElement option"
  liveTracks :: "nat set"

text \<open>\<^verbatim>\<open>stream.getTracks().forEach(track => track.stop())\<close>.\<close>

definition stopTracks :: "MediaStream \<Rightarrow> nat set \<Rightarrow> nat set" where
  "stopTracks stream live = fold (\<lambda>track l. l - {track}) stream live"

text \<open>\<^verbatim>\<open>resetState\<close> (lines 82 to 93). It does not write \<open>isLoading\<close>.\<close>

definition resetState :: "app_state \<Rightarrow> app_state" where
  "resetState s =
     (let s1 = s\<lparr>selectedImage := None, previewUrl := None, genderResult := Unset,
                 error := None\<rparr>;
          s2 = (case videoRef s1 of
                  None \<Rightarrow> s1
                | Some video \<Rightarrow>
                    (case srcObject video of
                       None \<Rightarrow> s1
                     | Some stream \<Rightarrow>
                         s1\<lparr>liveTracks := stopTracks stream (liveTracks s1),
                            videoRef := Some (video\<lparr>srcObject := None\<rparr>)\<rparr>))
      in s2\<lparr>isCameraMode := False\<rparr>)"

text \<open>The \<^verbatim>\<open>File\<close> of the input element: its name, declared type and size in bytes.\<close>

record File =
  file_name :: string
  file_type :: string
  file_size :: nat

text \<open>
  \<^verbatim>\<open>handleImageUpload\<close> (lines 95 to 121), up to the start of the asynchronous read.
  The second component is \<open>Some file\<close> when \<^verbatim>\<open>reader.readAsDataURL(file)\<close> was
  called, so that one of the reader's callbacks will run later.
\<close>

definition handleImageUpload :: "File option \<Rightarrow> app_state \<Rightarrow> app_state \<times> File option" where
  "handleImageUpload files0 s =
     (let s1 = resetState s in
      case files0 of
        None \<Rightarrow> (s1, None)
      | Some file \<Rightarrow>
          if \<not> startsWith (file_type file) ''image/'' then
            (s1\<lparr>error := Some ''Invalid file type. Please upload an image (JPEG, PNG, WEBP, GIF, HEIC, HEIF).''\<rparr>,
             None)
          else if file_size file > 4 * 1024 * 1024 then
            (s1\<lparr>error := Some ''Image too large. Maximum size is 4MB.''\<rparr>, None)
          else (s1, Some file))"

text \<open>
  \<^verbatim>\<open>reader.onloadend\<close>: \<open>result\<close> is \<^verbatim>\<open>reader.result\<close>, \<^verbatim>\<open>null\<close> after a failed read,
  where \<^verbatim>\<open>split\<close> raises before any setter runs. \<open>createObjectURL\<close> is the browser's
  \<^verbatim>\<open>URL.createObjectURL\<close>.
\<close>

definition reader_onloadend ::
  "(File \<Rightarrow> string) \<Rightarrow> File \<Rightarrow> string option \<Rightarrow> app_state \<Rightarrow> fault + app_state" where
  "reader_onloadend createObjectURL file result s =
     (case result of
        None \<Rightarrow> Inl TypeError
      | Some base64WithPrefix \<Rightarrow>
          (let base64Data = at_index (split_str (CHR '','') base64WithPrefix) 1
           in Inr (s\<lparr>selectedImage :=
                        Some \<lparr>base64 = base64Data, mimeType = file_type file,
                              name = Some (file_name file)\<rparr>,
                      previewUrl := Some (createObjectURL file)\<rparr>)))"

text \<open>
  \<^verbatim>\<open>reader.onerror\<close>, which runs after a failed read, before \<^verbatim>\<open>onloadend\<close> runs with a
  \<^verbatim>\<open>null\<close> result.
\<close>

definition reader_onerror :: "app_state \<Rightarrow> app_state" where
  "reader_onerror s = s\<lparr>error := Some ''Failed to read file.''\<rparr>"

text \<open>
  \<^verbatim>\<open>handleDetectGender\<close> (lines 162 to 184) is asynchronous: other handlers may run while
  it awaits the classification. \<open>handleDetectGender_start\<close> is the part before the
  \<^verbatim>\<open>await\<close>; its second component is \<open>Some selected\<close> when
  \<^verbatim>\<open>detectGenderFromImage(selectedImage)\<close> was called. \<open>handleDetectGender_resume\<close> is the part
  after the \<^verbatim>\<open>await\<close>, run on the state of that later moment with the value the promise
  resolved to.
\<close>

definition handleDetectGender_start ::
  "string option \<Rightarrow> app_state \<Rightarrow> app_state \<times> ImageData option" where
  "handleDetectGender_start API_KEY s =
     (case selectedImage s of
        None \<Rightarrow> (s\<lparr>error := Some ''Please select an image first.''\<rparr>, None)
      | Some selected \<Rightarrow>
          if falsy API_KEY then
            (s\<lparr>error := Some ''API Key is not configured. Please check application setup.''\<rparr>,
             None)
          else (s\<lparr>isLoading := True, genderResult := Unset, error := None\<rparr>, Some selected))"

definition handleDetectGender_resume :: "GenderResult \<Rightarrow> app_state \<Rightarrow> app_state" where
  "handleDetectGender_resume result s =
     (let s1 = (if result = Error then
                  s\<lparr>error := Some ''Failed to detect gender. The API might be unavailable or an error occurred. Check console for details.''\<rparr>
                else s\<lparr>genderResult := result\<rparr>)
      in s1\<lparr>isLoading := False\<rparr>)"

text \<open>
  \<^verbatim>\<open>startCamera\<close> (lines 123 to 136) is asynchronous as well. \<open>startCamera_start\<close> is
  the part before the \<^verbatim>\<open>await\<close> of \<^verbatim>\<open>getUserMedia\<close>. \<open>startCamera_resume\<close> is the
  part after it, run on the state of that later moment: with \<open>Inr stream\<close> the camera
  was granted and the tracks of the stream are live, and the stream is attached only if a
  \<^verbatim>\<open>video\<close> element is mounted then; with \<open>Inl\<close> the request was refused.
\<close>

definition startCamera_start :: "app_state \<Rightarrow> app_state" where
  "startCamera_start s = (resetState s)\<lparr>isCameraMode := True\<rparr>"

definition startCamera_resume :: "fault + MediaStream \<Rightarrow> app_state \<Rightarrow> app_state" where
  "startCamera_resume outcome s =
     (case outcome of
        Inr stream \<Rightarrow>
          (let s1 = s\<lparr>liveTracks := liveTracks s \<union> set stream\<rparr>
           in case videoRef s1 of
                None \<Rightarrow> s1
              | Some video \<Rightarrow> s1\<lparr>videoRef := Some (video\<lparr>srcObject := Some stream\<rparr>)\<rparr>)
      | Inl err \<Rightarrow>
          s\<lparr>error := Some ''Could not access camera. Please ensure permissions are granted.'',
            isCameraMode := False\<rparr>)"

text \<open>
  The \<^verbatim>\<open>disabled\<close> attributes of the two acquisition buttons: Upload Image (line 219)
  and Use Camera (line 229).
\<close>

definition uploadButton_disabled :: "app_state \<Rightarrow> bool" where
  "uploadButton_disabled s = (isLoading s \<or> isCameraMode s)"

definition cameraButton_disabled :: "app_state \<Rightarrow> bool" where
  "cameraButton_disabled s = (isLoading s \<and> \<not> isCameraMode s)"

section \<open>Properties\<close>

lemma startsWith_iff: "startsWith s p \<longleftrightarrow> (\<exists>b. s = p @ b)"
  by (induction s p rule: startsWith.induct) auto

lemma includes_str_iff: "includes_str s p \<longleftrightarrow> (\<exists>a b. s = a @ p @ b)"
proof (induction s)
  case Nil
  then show ?case by (simp add: startsWith_iff)
next
  case (Cons c cs)
  show ?case
  proof
    assume "includes_str (c # cs) p"
    then consider "startsWith (c # cs) p" | "includes_str cs p" by auto
    then show "\<exists>a b. c # cs = a @ p @ b"
    proof cases
      case 1
      then obtain b where "c # cs = [] @ p @ b" by (auto simp: startsWith_iff)
      then show ?thesis by blast
    next
      case 2
      then obtain a b where "cs = a @ p @ b" using Cons.IH by blast
      then have "c # cs = (c # a) @ p @ b" by simp
      then show ?thesis by blast
    qed
  next
    assume "\<exists>a b. c # cs = a @ p @ b"
    then obtain a b where ab: "c # cs = a @ p @ b" by blast
    show "includes_str (c # cs) p"
    proof (cases a)
      case Nil
      with ab have "startsWith (c # cs) p" by (auto simp: startsWith_iff)
      then show ?thesis by simp
    next
      case (Cons x a')
      with ab have "cs = a' @ p @ b" by simp
      then have "includes_str cs p" using Cons.IH by blast
      then show ?thesis by simp
    qed
  qed
qed

lemma includes_female_male:
  "includes_str s ''female'' \<Longrightarrow> includes_str s ''male''"
proof -
  assume "includes_str s ''female''"
  then obtain a b where "s = a @ ''female'' @ b" by (auto simp: includes_str_iff)
  then have "s = (a @ ''fe'') @ ''male'' @ b" by simp
  then show ?thesis unfolding includes_str_iff by blast
qed

subsection \<open>The classification client\<close>

lemma detect_resolves_text:
  assumes "\<not> falsy API_KEY" "gen (buildRequest imageData) = Inr response"
    "response_text response = Some t"
  shows "detectGenderFromImage API_KEY gen imageData
           = (Inr (normalizeText (trim t)), [buildRequest imageData])"
  using assms
  by (simp add: detectGenderFromImage_def tryBlock_def response_text_trim_def)

text \<open>
  C1. With a credential configured and a model call that resolves to a response with a
  text: when the trimmed text is none of the four exact keywords and its lower-cased
  form contains \<open>female\<close>, the classification resolves to \<open>Male\<close>, because the text
  then contains \<open>male\<close> as well and that rule of the fallback is tested first.
\<close>

theorem fallback_female_is_Male:
  assumes "\<not> falsy API_KEY"
    and "gen (buildRequest imageData) = Inr response"
    and "response_text response = Some t"
    and "trim t \<notin> {''Male'', ''Female'', ''Indeterminate'', ''NoFaceDetected''}"
    and "includes_str (toLowerCase (trim t)) ''female''"
  shows "fst (detectGenderFromImage API_KEY gen imageData) = Inr Male"
proof -
  from assms(5) have "includes_str (toLowerCase (trim t)) ''male''"
    by (rule includes_female_male)
  with assms(4) have "normalizeText (trim t) = Male"
    by (simp add: normalizeText_def)
  with assms(1-3) show ?thesis
    by (simp add: detect_resolves_text)
qed

theorem fallback_female_is_Male_witness:
  "trim '' I believe this is Female. '' \<notin> {''Male'', ''Female'', ''Indeterminate'', ''NoFaceDetected''}
   \<and> includes_str (toLowerCase (trim '' I believe this is Female. '')) ''female''
   \<and> fst (detectGenderFromImage (Some ''key'')
            (\<lambda>request. Inr \<lparr>response_text = Some '' I believe this is Female. ''\<rparr>)
            \<lparr>base64 = Some ''AAAA'', mimeType = ''image/jpeg'', name = None\<rparr>) = Inr Male"
proof -
  have k: "\<not> falsy (Some ''key'')" by (simp add: falsy_def)
  have t: "trim '' I believe this is Female. '' = ''I believe this is Female.''"
    by code_simp
  have n: "trim '' I believe this is Female. '' \<notin> {''Male'', ''Female'', ''Indeterminate'', ''NoFaceDetected''}"
    unfolding t by simp
  have f: "includes_str (toLowerCase (trim '' I believe this is Female. '')) ''female''"
    by code_simp
  show ?thesis
    using fallback_female_is_Male [OF k _ _ n f,
        of "\<lambda>request. Inr \<lparr>response_text = Some '' I believe this is Female. ''\<rparr>"
           "\<lparr>base64 = Some ''AAAA'', mimeType = ''image/jpeg'', name = None\<rparr>"
           "\<lparr>response_text = Some '' I believe this is Female. ''\<rparr>"] n f
    by simp
qed

lemma fallback_never_Female:
  assumes "normalizeText textResult = Female"
  shows "textResult = ''Female''"
proof (rule ccontr)
  assume n: "textResult \<noteq> ''Female''"
  show False
  proof (cases "includes_str (toLowerCase textResult) ''female''")
    case True
    then have "includes_str (toLowerCase textResult) ''male''"
      by (rule includes_female_male)
    with assms n show False
      by (simp add: normalizeText_def split: if_splits)
  next
    case False
    with assms n show False
      by (simp add: normalizeText_def split: if_splits)
  qed
qed

text \<open>
  C2. Whatever the credential, the image and the behaviour of the external model call,
  the promise of \<open>detectGenderFromImage\<close> resolves (\<open>Inr\<close>) and never rejects. Every
  failure path resolves to \<open>Error\<close>: a missing credential, a model call that rejects
  (a transport failure or any other fault), a response without a text (reading it
  raises), and generally any fault thrown inside the \<^verbatim>\<open>try\<close> block.
\<close>

theorem classify_never_raises:
  "(\<exists>r. fst (detectGenderFromImage API_KEY gen imageData) = Inr r)
   \<and> (falsy API_KEY \<longrightarrow> fst (detectGenderFromImage API_KEY gen imageData) = Inr Error)
   \<and> (\<forall>f. gen (buildRequest imageData) = Inl f
          \<longrightarrow> fst (detectGenderFromImage API_KEY gen imageData) = Inr Error)
   \<and> (\<forall>response. gen (buildRequest imageData) = Inr response \<and> response_text response = None
          \<longrightarrow> fst (detectGenderFromImage API_KEY gen imageData) = Inr Error)
   \<and> (\<forall>f. tryBlock gen imageData = Inl f
          \<longrightarrow> fst (detectGenderFromImage API_KEY gen imageData) = Inr Error)"
proof (intro conjI allI impI)
  show "\<exists>r. fst (detectGenderFromImage API_KEY gen imageData) = Inr r"
    by (cases "tryBlock gen imageData") (simp_all add: detectGenderFromImage_def)
next
  assume "falsy API_KEY"
  then show "fst (detectGenderFromImage API_KEY gen imageData) = Inr Error"
    by (simp add: detectGenderFromImage_def)
next
  fix f assume "gen (buildRequest imageData) = Inl f"
  then have "tryBlock gen imageData = Inl f" by (simp add: tryBlock_def)
  then show "fst (detectGenderFromImage API_KEY gen imageData) = Inr Error"
    by (simp add: detectGenderFromImage_def)
next
  fix response
  assume "gen (buildRequest imageData) = Inr response \<and> response_text response = None"
  then have "tryBlock gen imageData = Inl TypeError"
    by (simp add: tryBlock_def response_text_trim_def)
  then show "fst (detectGenderFromImage API_KEY gen imageData) = Inr Error"
    by (simp add: detectGenderFromImage_def)
next
  fix f assume "tryBlock gen imageData = Inl f"
  then show "fst (detectGenderFromImage API_KEY gen imageData) = Inr Error"
    by (simp add: detectGenderFromImage_def)
qed

theorem classify_never_raises_witness:
  "fst (detectGenderFromImage (Some ''key'') (\<lambda>request. Inl (ApiFault ''503 Service Unavailable''))
          \<lparr>base64 = Some ''AAAA'', mimeType = ''image/jpeg'', name = None\<rparr>) = Inr Error
   \<and> fst (detectGenderFromImage (Some ''key'') (\<lambda>request. Inr \<lparr>response_text = None\<rparr>)
          \<lparr>base64 = Some ''AAAA'', mimeType = ''image/jpeg'', name = None\<rparr>) = Inr Error
   \<and> fst (detectGenderFromImage None (\<lambda>request. Inr \<lparr>response_text = Some ''Male''\<rparr>)
          \<lparr>base64 = Some ''AAAA'', mimeType = ''image/jpeg'', name = None\<rparr>) = Inr Error"
proof -
  have a: "fst (detectGenderFromImage (Some ''key'') (\<lambda>request. Inl (ApiFault ''503 Service Unavailable''))
          \<lparr>base64 = Some ''AAAA'', mimeType = ''image/jpeg'', name = None\<rparr>) = Inr Error"
    using classify_never_raises [of "Some ''key''" "\<lambda>request. Inl (ApiFault ''503 Service Unavailable'')"
        "\<lparr>base64 = Some ''AAAA'', mimeType = ''image/jpeg'', name = None\<rparr>"]
    by simp
  have b: "fst (detectGenderFromImage (Some ''key'') (\<lambda>request. Inr \<lparr>response_text = None\<rparr>)
          \<lparr>base64 = Some ''AAAA'', mimeType = ''image/jpeg'', name = None\<rparr>) = Inr Error"
    using classify_never_raises [of "Some ''key''" "\<lambda>request. Inr \<lparr>response_text = None\<rparr>"
        "\<lparr>base64 = Some ''AAAA'', mimeType = ''image/jpeg'', name = None\<rparr>"]
    by simp
  have c: "fst (detectGenderFromImage None (\<lambda>request. Inr \<lparr>response_text = Some ''Male''\<rparr>)
          \<lparr>base64 = Some ''AAAA'', mimeType = ''image/jpeg'', name = None\<rparr>) = Inr Error"
    using classify_never_raises [of None "\<lambda>request. Inr \<lparr>response_text = Some ''Male''\<rparr>"
        "\<lparr>base64 = Some ''AAAA'', mimeType = ''image/jpeg'', name = None\<rparr>"]
    by (simp add: falsy_def)
  from a b c show ?thesis by blast
qed

text \<open>
  C3. With no credential configured (\<^verbatim>\<open>undefined\<close> or empty), the classification
  resolves to \<open>Error\<close> and the list of requests sent to the external model is empty,
  for every image and every behaviour of the model.
\<close>

theorem no_credential_no_call:
  assumes "falsy API_KEY"
  shows "detectGenderFromImage API_KEY gen imageData = (Inr Error, [])"
  using assms by (simp add: detectGenderFromImage_def)

lemma credential_one_call:
  assumes "\<not> falsy API_KEY"
  shows "snd (detectGenderFromImage API_KEY gen imageData) = [buildRequest imageData]"
  using assms by (cases "tryBlock gen imageData") (simp_all add: detectGenderFromImage_def)

theorem no_credential_no_call_witness:
  "falsy None \<and> falsy (Some '''')
   \<and> detectGenderFromImage None (\<lambda>request. Inr \<lparr>response_text = Some ''Male''\<rparr>)
        \<lparr>base64 = Some ''AAAA'', mimeType = ''image/jpeg'', name = None\<rparr> = (Inr Error, [])
   \<and> detectGenderFromImage (Some '''') (\<lambda>request. Inr \<lparr>response_text = Some ''Male''\<rparr>)
        \<lparr>base64 = Some ''AAAA'', mimeType = ''image/jpeg'', name = None\<rparr> = (Inr Error, [])"
proof -
  have n: "falsy None" by (simp add: falsy_def)
  have e: "falsy (Some '''')" by (simp add: falsy_def)
  show ?thesis
    using n e no_credential_no_call [OF n] no_credential_no_call [OF e] by simp
qed

text \<open>
  C4. When the trimmed response text is exactly one of the four keywords, the
  classification resolves to that keyword; the substring fallback is not consulted
  (so exactly \<open>Female\<close> is \<open>Female\<close>, although it contains \<open>male\<close>).
\<close>

theorem exact_keyword_returned:
  assumes "\<not> falsy API_KEY"
    and "gen (buildRequest imageData) = Inr response"
    and "response_text response = Some t"
  shows "(trim t = ''Male'' \<longrightarrow> fst (detectGenderFromImage API_KEY gen imageData) = Inr Male)
       \<and> (trim t = ''Female'' \<longrightarrow> fst (detectGenderFromImage API_KEY gen imageData) = Inr Female)
       \<and> (trim t = ''Indeterminate''
            \<longrightarrow> fst (detectGenderFromImage API_KEY gen imageData) = Inr Indeterminate)
       \<and> (trim t = ''NoFaceDetected''
            \<longrightarrow> fst (detectGenderFromImage API_KEY gen imageData) = Inr NoFaceDetected)"
  using assms by (simp add: detect_resolves_text normalizeText_def)

theorem exact_keyword_returned_witness:
  "fst (detectGenderFromImage (Some ''key'') (\<lambda>request. Inr \<lparr>response_text = Some ''Female''\<rparr>)
          \<lparr>base64 = Some ''AAAA'', mimeType = ''image/jpeg'', name = None\<rparr>) = Inr Female
   \<and> fst (detectGenderFromImage (Some ''key'')
          (\<lambda>request. Inr \<lparr>response_text = Some '' NoFaceDetected'' \<rparr>)
          \<lparr>base64 = Some ''AAAA'', mimeType = ''image/jpeg'', name = None\<rparr>) = Inr NoFaceDetected"
proof -
  have k: "\<not> falsy (Some ''key'')" by (simp add: falsy_def)
  have t1: "trim ''Female'' = ''Female''" by code_simp
  have t2: "trim '' NoFaceDetected'' = ''NoFaceDetected''" by code_simp
  have a: "fst (detectGenderFromImage (Some ''key'') (\<lambda>request. Inr \<lparr>response_text = Some ''Female''\<rparr>)
          \<lparr>base64 = Some ''AAAA'', mimeType = ''image/jpeg'', name = None\<rparr>) = Inr Female"
    using exact_keyword_returned [OF k, of "\<lambda>request. Inr \<lparr>response_text = Some ''Female''\<rparr>"
        "\<lparr>base64 = Some ''AAAA'', mimeType = ''image/jpeg'', name = None\<rparr>"
        "\<lparr>response_text = Some ''Female''\<rparr>" "''Female''"] t1
    by simp
  have b: "fst (detectGenderFromImage (Some ''key'')
          (\<lambda>request. Inr \<lparr>response_text = Some '' NoFaceDetected'' \<rparr>)
          \<lparr>base64 = Some ''AAAA'', mimeType = ''image/jpeg'', name = None\<rparr>) = Inr NoFaceDetected"
    using exact_keyword_returned [OF k, of "\<lambda>request. Inr \<lparr>response_text = Some '' NoFaceDetected''\<rparr>"
        "\<lparr>base64 = Some ''AAAA'', mimeType = ''image/jpeg'', name = None\<rparr>"
        "\<lparr>response_text = Some '' NoFaceDetected''\<rparr>" "'' NoFaceDetected''"] t2
    by simp
  from a b show ?thesis by blast
qed

text \<open>
  C9. When the trimmed response text is none of the exact keywords and its lower-cased
  form contains none of \<open>male\<close>, \<open>female\<close>, \<open>indeterminate\<close>, \<open>no face\<close> and
  \<open>nofacedetected\<close>, the classification resolves to \<open>Indeterminate\<close>.
\<close>

theorem fallback_default_Indeterminate:
  assumes "\<not> falsy API_KEY"
    and "gen (buildRequest imageData) = Inr response"
    and "response_text response = Some t"
    and "trim t \<notin> {''Male'', ''Female'', ''Indeterminate'', ''NoFaceDetected''}"
    and "\<not> includes_str (toLowerCase (trim t)) ''male''"
    and "\<not> includes_str (toLowerCase (trim t)) ''female''"
    and "\<not> includes_str (toLowerCase (trim t)) ''indeterminate''"
    and "\<not> includes_str (toLowerCase (trim t)) ''no face''"
    and "\<not> includes_str (toLowerCase (trim t)) ''nofacedetected''"
  shows "fst (detectGenderFromImage API_KEY gen imageData) = Inr Indeterminate"
proof -
  from assms(4-9) have "normalizeText (trim t) = Indeterminate"
    by (simp add: normalizeText_def)
  with assms(1-3) show ?thesis
    by (simp add: detect_resolves_text)
qed

theorem fallback_default_Indeterminate_witness:
  "\<not> includes_str (toLowerCase (trim ''I cannot tell.'')) ''male''
   \<and> \<not> includes_str (toLowerCase (trim ''I cannot tell.'')) ''indeterminate''
   \<and> fst (detectGenderFromImage (Some ''key'') (\<lambda>request. Inr \<lparr>response_text = Some ''I cannot tell.''\<rparr>)
          \<lparr>base64 = Some ''AAAA'', mimeType = ''image/jpeg'', name = None\<rparr>) = Inr Indeterminate"
proof -
  have k: "\<not> falsy (Some ''key'')" by (simp add: falsy_def)
  have t: "trim ''I cannot tell.'' = ''I cannot tell.''" by code_simp
  have n: "trim ''I cannot tell.'' \<notin> {''Male'', ''Female'', ''Indeterminate'', ''NoFaceDetected''}"
    unfolding t by simp
  have m: "\<not> includes_str (toLowerCase (trim ''I cannot tell.'')) ''male''" by code_simp
  have f: "\<not> includes_str (toLowerCase (trim ''I cannot tell.'')) ''female''" by code_simp
  have i: "\<not> includes_str (toLowerCase (trim ''I cannot tell.'')) ''indeterminate''" by code_simp
  have s: "\<not> includes_str (toLowerCase (trim ''I cannot tell.'')) ''no face''" by code_simp
  have d: "\<not> includes_str (toLowerCase (trim ''I cannot tell.'')) ''nofacedetected''" by code_simp
  show ?thesis
    using fallback_default_Indeterminate [OF k _ _ n m f i s d,
        of "\<lambda>request. Inr \<lparr>response_text = Some ''I cannot tell.''\<rparr>"
           "\<lparr>base64 = Some ''AAAA'', mimeType = ''image/jpeg'', name = None\<rparr>"
           "\<lparr>response_text = Some ''I cannot tell.''\<rparr>"] m i
    by simp
qed

text \<open>
  C10. For every credential, image and behaviour of the model call, the classification
  resolves to one of \<open>Male\<close>, \<open>Female\<close>, \<open>Indeterminate\<close>, \<open>NoFaceDetected\<close> and
  \<open>Error\<close>, never to \<open>Unset\<close>.
\<close>

theorem classify_result_range:
  "fst (detectGenderFromImage API_KEY gen imageData)
     \<in> {Inr Male, Inr Female, Inr Indeterminate, Inr NoFaceDetected, Inr Error}
   \<and> fst (detectGenderFromImage API_KEY gen imageData) \<noteq> Inr Unset"
proof -
  have n: "normalizeText x \<in> {Male, Female, Indeterminate, NoFaceDetected}" for x
    by (simp add: normalizeText_def)
  have "fst (detectGenderFromImage API_KEY gen imageData)
     \<in> {Inr Male, Inr Female, Inr Indeterminate, Inr NoFaceDetected, Inr Error}"
    using n
    by (auto simp: detectGenderFromImage_def tryBlock_def response_text_trim_def
        split: sum.splits option.splits)
  then show ?thesis by auto
qed

theorem classify_result_range_witness:
  "fst (detectGenderFromImage (Some ''key'') (\<lambda>request. Inr \<lparr>response_text = Some ''null''\<rparr>)
          \<lparr>base64 = Some ''AAAA'', mimeType = ''image/jpeg'', name = None\<rparr>) \<noteq> Inr Unset"
  using classify_result_range [of "Some ''key''" "\<lambda>request. Inr \<lparr>response_text = Some ''null''\<rparr>"
        "\<lparr>base64 = Some ''AAAA'', mimeType = ''image/jpeg'', name = None\<rparr>"]
  by simp

subsection \<open>The acquisition controller and the detection handler\<close>

lemma stopTracks_eq: "stopTracks stream live = live - set stream"
  unfolding stopTracks_def
  by (induction stream arbitrary: live) auto

lemma resetState_cells:
  "selectedImage (resetState s) = None"
  "previewUrl (resetState s) = None"
  "genderResult (resetState s) = Unset"
  "error (resetState s) = None"
  "isCameraMode (resetState s) = False"
  "isLoading (resetState s) = isLoading s"
  by (simp_all add: resetState_def Let_def split: option.splits)

lemma resetState_videoRef:
  "videoRef (resetState s) = map_option (\<lambda>video. video\<lparr>srcObject := None\<rparr>) (videoRef s)"
  by (simp add: resetState_def Let_def split: option.splits)

lemma resetState_liveTracks:
  "liveTracks (resetState s) =
     (case videoRef s of
        None \<Rightarrow> liveTracks s
      | Some video \<Rightarrow>
          (case srcObject video of None \<Rightarrow> liveTracks s
           | Some stream \<Rightarrow> liveTracks s - set stream))"
  by (simp add: resetState_def Let_def stopTracks_eq split: option.splits)

lemma resetState_idem: "resetState (resetState s) = resetState s"
  by (simp add: resetState_def Let_def split: option.splits)

text \<open>
  Two states from which \<open>resetState\<close> does not reach Idle without an open camera stream.
  First, a classification is started from a selected image and the state is reset while
  it is in flight (the Reset control is enabled then, line 282): the loading flag stays
  set and both acquisition buttons stay disabled. Second, Reset is clicked while
  \<^verbatim>\<open>getUserMedia\<close> is pending, so that the \<^verbatim>\<open>video\<close> element is unmounted when the camera
  is granted: the stream is attached nowhere, and a later \<open>resetState\<close> leaves its
  tracks live.
\<close>

theorem resetState_not_idle_counterexample:
  "handleDetectGender_start (Some ''key'')
      \<lparr>selectedImage = Some \<lparr>base64 = Some ''AAAA'', mimeType = ''image/jpeg'', name = None\<rparr>,
       previewUrl = Some ''data:image/jpeg;base64,AAAA'', genderResult = Unset, isLoading = False,
       error = None, isCameraMode = False, videoRef = None, liveTracks = {}\<rparr>
    = (\<lparr>selectedImage = Some \<lparr>base64 = Some ''AAAA'', mimeType = ''image/jpeg'', name = None\<rparr>,
        previewUrl = Some ''data:image/jpeg;base64,AAAA'', genderResult = Unset, isLoading = True,
        error = None, isCameraMode = False, videoRef = None, liveTracks = {}\<rparr>,
       Some \<lparr>base64 = Some ''AAAA'', mimeType = ''image/jpeg'', name = None\<rparr>)
   \<and> resetState
        \<lparr>selectedImage = Some \<lparr>base64 = Some ''AAAA'', mimeType = ''image/jpeg'', name = None\<rparr>,
         previewUrl = Some ''data:image/jpeg;base64,AAAA'', genderResult = Unset, isLoading = True,
         error = None, isCameraMode = False, videoRef = None, liveTracks = {}\<rparr>
    = \<lparr>selectedImage = None, previewUrl = None, genderResult = Unset, isLoading = True,
       error = None, isCameraMode = False, videoRef = None, liveTracks = {}\<rparr>
   \<and> uploadButton_disabled
        \<lparr>selectedImage = None, previewUrl = None, genderResult = Unset, isLoading = True,
         error = None, isCameraMode = False, videoRef = None, liveTracks = {}\<rparr>
   \<and> cameraButton_disabled
        \<lparr>selectedImage = None, previewUrl = None, genderResult = Unset, isLoading = True,
         error = None, isCameraMode = False, videoRef = None, liveTracks = {}\<rparr>
   \<and> startCamera_resume (Inr [0, 1])
        \<lparr>selectedImage = None, previewUrl = None, genderResult = Unset, isLoading = False,
         error = None, isCameraMode = False, videoRef = None, liveTracks = {}\<rparr>
    = \<lparr>selectedImage = None, previewUrl = None, genderResult = Unset, isLoading = False,
       error = None, isCameraMode = False, videoRef = None, liveTracks = {0, 1}\<rparr>
   \<and> resetState
        \<lparr>selectedImage = None, previewUrl = None, genderResult = Unset, isLoading = False,
         error = None, isCameraMode = False, videoRef = None, liveTracks = {0, 1}\<rparr>
    = \<lparr>selectedImage = None, previewUrl = None, genderResult = Unset, isLoading = False,
       error = None, isCameraMode = False, videoRef = None, liveTracks = {0, 1}\<rparr>"
  by (simp add: handleDetectGender_start_def falsy_def resetState_def
      uploadButton_disabled_def cameraButton_disabled_def startCamera_resume_def)

text \<open>
  C8, as the code has it. From every state, \<open>resetState\<close> leaves no \<open>ImageData\<close> (and no
  preview), no result, no error and camera mode off; no stream is attached to the
  \<^verbatim>\<open>video\<close> element, and every track of a stream that was attached to it is stopped.
  The loading flag is left as it was: when no classification is in flight, both
  acquisition buttons are enabled afterwards (the state is Idle); when one is in flight,
  it stays in flight. Resetting twice is the same as resetting once.
\<close>

theorem resetState_effect_idempotent:
  "selectedImage (resetState s) = None
   \<and> previewUrl (resetState s) = None
   \<and> genderResult (resetState s) = Unset
   \<and> error (resetState s) = None
   \<and> \<not> isCameraMode (resetState s)
   \<and> (\<forall>video. videoRef (resetState s) = Some video \<longrightarrow> srcObject video = None)
   \<and> (\<forall>video stream. videoRef s = Some video \<and> srcObject video = Some stream
         \<longrightarrow> set stream \<inter> liveTracks (resetState s) = {})
   \<and> isLoading (resetState s) = isLoading s
   \<and> (\<not> isLoading s \<longrightarrow> \<not> uploadButton_disabled (resetState s)
                          \<and> \<not> cameraButton_disabled (resetState s))
   \<and> (isLoading s \<longrightarrow> uploadButton_disabled (resetState s)
                        \<and> cameraButton_disabled (resetState s))
   \<and> resetState (resetState s) = resetState s"
proof (intro conjI allI impI)
  fix video assume "videoRef (resetState s) = Some video"
  then show "srcObject video = None"
    by (auto simp: resetState_videoRef)
next
  fix video stream
  assume "videoRef s = Some video \<and> srcObject video = Some stream"
  then show "set stream \<inter> liveTracks (resetState s) = {}"
    by (auto simp: resetState_liveTracks)
qed (simp_all add: resetState_cells resetState_idem uploadButton_disabled_def
      cameraButton_disabled_def)

theorem resetState_effect_idempotent_witness:
  "resetState \<lparr>selectedImage = None, previewUrl = None, genderResult = Unset, isLoading = False,
       error = None,
       isCameraMode = True, videoRef = Some \<lparr>srcObject = Some [0, 1]\<rparr>, liveTracks = {0, 1}\<rparr>
   = \<lparr>selectedImage = None, previewUrl = None, genderResult = Unset, isLoading = False,
       error = None, isCameraMode = False, videoRef = Some \<lparr>srcObject = None\<rparr>, liveTracks = {}\<rparr>
   \<and> resetState (resetState \<lparr>selectedImage = None, previewUrl = None, genderResult = Unset,
       isLoading = False,
       error = None,
       isCameraMode = True, videoRef = Some \<lparr>srcObject = Some [0, 1]\<rparr>, liveTracks = {0, 1}\<rparr>)
   = \<lparr>selectedImage = None, previewUrl = None, genderResult = Unset, isLoading = False,
       error = None, isCameraMode = False, videoRef = Some \<lparr>srcObject = None\<rparr>, liveTracks = {}\<rparr>
   \<and> \<not> uploadButton_disabled (resetState \<lparr>selectedImage = None, previewUrl = None,
       genderResult = Unset, isLoading = False,
       error = None,
       isCameraMode = True, videoRef = Some \<lparr>srcObject = Some [0, 1]\<rparr>, liveTracks = {0, 1}\<rparr>)"
proof -
  have r: "resetState \<lparr>selectedImage = None, previewUrl = None, genderResult = Unset, isLoading = False,
       error = None,
       isCameraMode = True, videoRef = Some \<lparr>srcObject = Some [0, 1]\<rparr>, liveTracks = {0, 1}\<rparr>
   = \<lparr>selectedImage = None, previewUrl = None, genderResult = Unset, isLoading = False,
       error = None, isCameraMode = False, videoRef = Some \<lparr>srcObject = None\<rparr>, liveTracks = {}\<rparr>"
    by (simp add: resetState_def stopTracks_def)
  show ?thesis
    using r resetState_effect_idempotent [of "\<lparr>selectedImage = None, previewUrl = None,
       genderResult = Unset, isLoading = False,
       error = None,
       isCameraMode = True, videoRef = Some \<lparr>srcObject = Some [0, 1]\<rparr>, liveTracks = {0, 1}\<rparr>"]
    by simp
qed

text \<open>
  A request is started from a selected image, the state is reset while the request is in
  flight, and the request then resolves to \<open>Female\<close>: the result is committed and shown,
  although its image is gone.
\<close>

theorem reset_in_flight_counterexample:
  "handleDetectGender_start (Some ''key'')
      \<lparr>selectedImage = Some \<lparr>base64 = Some ''AAAA'', mimeType = ''image/jpeg'', name = None\<rparr>,
       previewUrl = Some ''data:image/jpeg;base64,AAAA'', genderResult = Unset, isLoading = False,
       error = None, isCameraMode = False, videoRef = None, liveTracks = {}\<rparr>
    = (\<lparr>selectedImage = Some \<lparr>base64 = Some ''AAAA'', mimeType = ''image/jpeg'', name = None\<rparr>,
        previewUrl = Some ''data:image/jpeg;base64,AAAA'', genderResult = Unset, isLoading = True,
        error = None, isCameraMode = False, videoRef = None, liveTracks = {}\<rparr>,
       Some \<lparr>base64 = Some ''AAAA'', mimeType = ''image/jpeg'', name = None\<rparr>)
   \<and> fst (detectGenderFromImage (Some ''key'') (\<lambda>request. Inr \<lparr>response_text = Some ''Female''\<rparr>)
          \<lparr>base64 = Some ''AAAA'', mimeType = ''image/jpeg'', name = None\<rparr>) = Inr Female
   \<and> handleDetectGender_resume Female
        (resetState
          \<lparr>selectedImage = Some \<lparr>base64 = Some ''AAAA'', mimeType = ''image/jpeg'', name = None\<rparr>,
           previewUrl = Some ''data:image/jpeg;base64,AAAA'', genderResult = Unset, isLoading = True,
           error = None, isCameraMode = False, videoRef = None, liveTracks = {}\<rparr>)
    = \<lparr>selectedImage = None, previewUrl = None, genderResult = Female, isLoading = False,
       error = None, isCameraMode = False, videoRef = None, liveTracks = {}\<rparr>"
proof (intro conjI)
  show "fst (detectGenderFromImage (Some ''key'') (\<lambda>request. Inr \<lparr>response_text = Some ''Female''\<rparr>)
          \<lparr>base64 = Some ''AAAA'', mimeType = ''image/jpeg'', name = None\<rparr>) = Inr Female"
    by code_simp
qed (simp_all add: handleDetectGender_start_def falsy_def handleDetectGender_resume_def
      resetState_def)

text \<open>
  C5, as the code has it. When \<open>resetState\<close> runs while a classification is in flight,
  the loading flag stays set and the result is cleared at that moment, but the response
  is not discarded: when the call resolves, the handler commits its value to the state
  of that moment. A value other than \<open>Error\<close> becomes the displayed result (with no
  image selected any more), the value \<open>Error\<close> sets the failure message, and the
  loading flag is cleared.
\<close>

theorem reset_in_flight_result_committed:
  assumes "handleDetectGender_start API_KEY s = (s1, Some selected)"
    and "fst (detectGenderFromImage API_KEY gen selected) = Inr result"
  shows "isLoading s1
       \<and> isLoading (resetState s1)
       \<and> genderResult (resetState s1) = Unset
       \<and> genderResult (handleDetectGender_resume result (resetState s1))
           = (if result = Error then Unset else result)
       \<and> error (handleDetectGender_resume result (resetState s1))
           = (if result = Error then
                Some ''Failed to detect gender. The API might be unavailable or an error occurred. Check console for details.''
              else None)
       \<and> selectedImage (handleDetectGender_resume result (resetState s1)) = None
       \<and> \<not> isLoading (handleDetectGender_resume result (resetState s1))"
proof -
  from assms(1) have "isLoading s1"
    by (auto simp: handleDetectGender_start_def split: option.splits if_splits)
  then show ?thesis
    by (simp add: handleDetectGender_resume_def resetState_cells)
qed

theorem reset_in_flight_result_committed_witness:
  "genderResult (handleDetectGender_resume Female
        (resetState
          \<lparr>selectedImage = Some \<lparr>base64 = Some ''AAAA'', mimeType = ''image/jpeg'', name = None\<rparr>,
           previewUrl = Some ''data:image/jpeg;base64,AAAA'', genderResult = Unset, isLoading = True,
           error = None, isCameraMode = False, videoRef = None, liveTracks = {}\<rparr>)) = Female"
proof -
  have a: "handleDetectGender_start (Some ''key'')
      \<lparr>selectedImage = Some \<lparr>base64 = Some ''AAAA'', mimeType = ''image/jpeg'', name = None\<rparr>,
       previewUrl = Some ''data:image/jpeg;base64,AAAA'', genderResult = Unset, isLoading = False,
       error = None, isCameraMode = False, videoRef = None, liveTracks = {}\<rparr>
    = (\<lparr>selectedImage = Some \<lparr>base64 = Some ''AAAA'', mimeType = ''image/jpeg'', name = None\<rparr>,
        previewUrl = Some ''data:image/jpeg;base64,AAAA'', genderResult = Unset, isLoading = True,
        error = None, isCameraMode = False, videoRef = None, liveTracks = {}\<rparr>,
       Some \<lparr>base64 = Some ''AAAA'', mimeType = ''image/jpeg'', name = None\<rparr>)"
    by (simp add: handleDetectGender_start_def falsy_def)
  have b: "fst (detectGenderFromImage (Some ''key'') (\<lambda>request. Inr \<lparr>response_text = Some ''Female''\<rparr>)
          \<lparr>base64 = Some ''AAAA'', mimeType = ''image/jpeg'', name = None\<rparr>) = Inr Female"
    by code_simp
  show ?thesis
    using reset_in_flight_result_committed [OF a b] by simp
qed

text \<open>
  A file of 5000000 bytes is selected while an image and its result are held. For the
  type \<open>image/png\<close> the too-large error is set, but the image, the preview and the result
  are gone; for the type \<open>application/pdf\<close> the error is the invalid-type one.
\<close>

theorem selectFile_too_large_counterexample:
  "fst (handleImageUpload
         (Some \<lparr>file_name = ''big.png'', file_type = ''image/png'', file_size = 5000000\<rparr>)
         \<lparr>selectedImage = Some \<lparr>base64 = Some ''AAAA'', mimeType = ''image/jpeg'',
                                 name = Some ''a.jpg''\<rparr>,
          previewUrl = Some ''blob:1'', genderResult = Female, isLoading = False,
          error = None, isCameraMode = False, videoRef = None, liveTracks = {}\<rparr>)
   = \<lparr>selectedImage = None, previewUrl = None, genderResult = Unset, isLoading = False,
      error = Some ''Image too large. Maximum size is 4MB.'', isCameraMode = False,
      videoRef = None, liveTracks = {}\<rparr>
   \<and> error (fst (handleImageUpload
         (Some \<lparr>file_name = ''big.pdf'', file_type = ''application/pdf'', file_size = 5000000\<rparr>)
         \<lparr>selectedImage = Some \<lparr>base64 = Some ''AAAA'', mimeType = ''image/jpeg'',
                                 name = Some ''a.jpg''\<rparr>,
          previewUrl = Some ''blob:1'', genderResult = Female, isLoading = False,
          error = None, isCameraMode = False, videoRef = None, liveTracks = {}\<rparr>))
   = Some ''Invalid file type. Please upload an image (JPEG, PNG, WEBP, GIF, HEIC, HEIF).''"
  by (simp add: handleImageUpload_def resetState_def)

text \<open>
  C6, as the code has it. For a file whose declared type starts with \<open>image/\<close> and whose
  size exceeds 4 MiB (4194304 bytes), \<open>handleImageUpload\<close> sets the too-large error and
  starts no read. The state it leaves is the reset state with that error: the handler
  resets first, so no \<open>ImageData\<close>, no preview and no result remain, and camera mode
  is off.
\<close>

theorem selectFile_too_large:
  assumes "startsWith (file_type file) ''image/''"
    and "file_size file > 4 * 1024 * 1024"
  shows "handleImageUpload (Some file) s
           = ((resetState s)\<lparr>error := Some ''Image too large. Maximum size is 4MB.''\<rparr>, None)
       \<and> selectedImage (fst (handleImageUpload (Some file) s)) = None
       \<and> previewUrl (fst (handleImageUpload (Some file) s)) = None
       \<and> genderResult (fst (handleImageUpload (Some file) s)) = Unset
       \<and> \<not> isCameraMode (fst (handleImageUpload (Some file) s))"
  using assms by (simp add: handleImageUpload_def Let_def resetState_cells)

theorem selectFile_too_large_witness:
  "startsWith ''image/png'' ''image/''
   \<and> handleImageUpload
         (Some \<lparr>file_name = ''big.png'', file_type = ''image/png'', file_size = 4194305\<rparr>)
         \<lparr>selectedImage = Some \<lparr>base64 = Some ''AAAA'', mimeType = ''image/jpeg'',
                                 name = Some ''a.jpg''\<rparr>,
          previewUrl = Some ''blob:1'', genderResult = Female, isLoading = False,
          error = None, isCameraMode = False, videoRef = None, liveTracks = {}\<rparr>
   = (\<lparr>selectedImage = None, previewUrl = None, genderResult = Unset, isLoading = False,
      error = Some ''Image too large. Maximum size is 4MB.'', isCameraMode = False,
      videoRef = None, liveTracks = {}\<rparr>, None)"
proof -
  have t: "startsWith (file_type \<lparr>file_name = ''big.png'', file_type = ''image/png'', file_size = 4194305\<rparr>) ''image/''"
    by simp
  have z: "file_size \<lparr>file_name = ''big.png'', file_type = ''image/png'', file_size = 4194305\<rparr> > 4 * 1024 * 1024"
    by simp
  show ?thesis
    using t selectFile_too_large [OF t z, of "\<lparr>selectedImage = Some \<lparr>base64 = Some ''AAAA'', mimeType = ''image/jpeg'',
                                 name = Some ''a.jpg''\<rparr>,
          previewUrl = Some ''blob:1'', genderResult = Female, isLoading = False,
          error = None, isCameraMode = False, videoRef = None, liveTracks = {}\<rparr>"]
    by (simp add: resetState_def)
qed

text \<open>
  A file of type \<open>image/tiff\<close> and 1000 bytes passes both checks: no error is set, the
  read is started, and when it completes the file is stored as the \<open>ImageData\<close> with
  the type \<open>image/tiff\<close>.
\<close>

theorem selectFile_allow_list_counterexample:
  "handleImageUpload
      (Some \<lparr>file_name = ''scan.tiff'', file_type = ''image/tiff'', file_size = 1000\<rparr>)
      \<lparr>selectedImage = None, previewUrl = None, genderResult = Unset, isLoading = False,
       error = None, isCameraMode = False, videoRef = None, liveTracks = {}\<rparr>
   = (\<lparr>selectedImage = None, previewUrl = None, genderResult = Unset, isLoading = False,
       error = None, isCameraMode = False, videoRef = None, liveTracks = {}\<rparr>,
      Some \<lparr>file_name = ''scan.tiff'', file_type = ''image/tiff'', file_size = 1000\<rparr>)
   \<and> reader_onloadend (\<lambda>file. ''blob:2'')
        \<lparr>file_name = ''scan.tiff'', file_type = ''image/tiff'', file_size = 1000\<rparr>
        (Some ''data:image/tiff;base64,SUkqAA'')
        \<lparr>selectedImage = None, previewUrl = None, genderResult = Unset, isLoading = False,
         error = None, isCameraMode = False, videoRef = None, liveTracks = {}\<rparr>
   = Inr \<lparr>selectedImage = Some \<lparr>base64 = Some ''SUkqAA'', mimeType = ''image/tiff'',
                                   name = Some ''scan.tiff''\<rparr>,
          previewUrl = Some ''blob:2'', genderResult = Unset, isLoading = False,
          error = None, isCameraMode = False, videoRef = None, liveTracks = {}\<rparr>"
  by (simp add: handleImageUpload_def resetState_def reader_onloadend_def at_index_def)

text \<open>
  C7, as the code has it. The type check is the prefix \<open>image/\<close>, not an allow-list. A
  file whose declared type does not start with \<open>image/\<close> gets the invalid-type error
  and no \<open>ImageData\<close> is stored. A file whose declared type starts with \<open>image/\<close> and
  whose size is at most 4 MiB is read, and on completion of the read it is stored as the
  \<open>ImageData\<close> with its declared type, whatever image type that is.
\<close>

theorem selectFile_type_check:
  "(\<not> startsWith (file_type file) ''image/''
      \<longrightarrow> handleImageUpload (Some file) s
           = ((resetState s)\<lparr>error :=
                 Some ''Invalid file type. Please upload an image (JPEG, PNG, WEBP, GIF, HEIC, HEIF).''\<rparr>,
              None)
        \<and> selectedImage (fst (handleImageUpload (Some file) s)) = None)
   \<and> (startsWith (file_type file) ''image/'' \<and> file_size file \<le> 4 * 1024 * 1024
      \<longrightarrow> handleImageUpload (Some file) s = (resetState s, Some file)
        \<and> (\<exists>s'. reader_onloadend createObjectURL file (Some base64WithPrefix) (resetState s) = Inr s'
               \<and> map_option mimeType (selectedImage s') = Some (file_type file)))"
  by (auto simp: handleImageUpload_def Let_def resetState_cells reader_onloadend_def)

theorem selectFile_type_check_witness:
  "\<not> startsWith ''application/pdf'' ''image/''
   \<and> error (fst (handleImageUpload
         (Some \<lparr>file_name = ''a.pdf'', file_type = ''application/pdf'', file_size = 1000\<rparr>)
      \<lparr>selectedImage = None, previewUrl = None, genderResult = Unset, isLoading = False,
       error = None, isCameraMode = False, videoRef = None, liveTracks = {}\<rparr>))
     = Some ''Invalid file type. Please upload an image (JPEG, PNG, WEBP, GIF, HEIC, HEIF).''
   \<and> startsWith ''image/tiff'' ''image/''
   \<and> snd (handleImageUpload
         (Some \<lparr>file_name = ''scan.tiff'', file_type = ''image/tiff'', file_size = 1000\<rparr>)
      \<lparr>selectedImage = None, previewUrl = None, genderResult = Unset, isLoading = False,
       error = None, isCameraMode = False, videoRef = None, liveTracks = {}\<rparr>)
     = Some \<lparr>file_name = ''scan.tiff'', file_type = ''image/tiff'', file_size = 1000\<rparr>"
proof -
  have a: "\<not> startsWith ''application/pdf'' ''image/''" by simp
  have b: "startsWith ''image/tiff'' ''image/''" by simp
  show ?thesis
    using a b
      selectFile_type_check [of "\<lparr>file_name = ''a.pdf'', file_type = ''application/pdf'', file_size = 1000\<rparr>"
        "\<lparr>selectedImage = None, previewUrl = None, genderResult = Unset, isLoading = False,
       error = None, isCameraMode = False, videoRef = None, liveTracks = {}\<rparr>"]
      selectFile_type_check [of "\<lparr>file_name = ''scan.tiff'', file_type = ''image/tiff'', file_size = 1000\<rparr>"
        "\<lparr>selectedImage = None, previewUrl = None, genderResult = Unset, isLoading = False,
       error = None, isCameraMode = False, videoRef = None, liveTracks = {}\<rparr>"]
    by simp
qed

end
